theory Spec2Isabelle
  imports Complex_Main "HOL-Library.Sublist"
begin

section \<open>Python values and string primitives\<close>

text \<open>
  The tools of \<^verbatim>\<open>caremate/tools\<close> exchange \<^verbatim>\<open>str\<close> values and
  \<^verbatim>\<open>Dict[str, Any]\<close> dictionaries. A text is a \<^typ>\<open>string\<close>, that is a text of
  ASCII characters; every keyword of the source is plain ASCII. The tools return their
  result dictionary serialised by \<^verbatim>\<open>json.dumps\<close>; the model returns the dictionary
  itself, as a record. The values a dictionary argument can carry are the JSON values
  the tool schemas admit (floats and nested dictionaries are never read by the code
  below).
\<close>

datatype py_value =
    PyNone
  | PyBool bool
  | PyInt int
  | PyStr string
  | PyList "py_value list"

datatype error = AttributeError

text \<open>\<^verbatim>\<open>str.lower()\<close>: the letters A to Z go to a to z, every other character stays.\<close>

definition lower_char :: "char \<Rightarrow> char" where
  "lower_char c =
     (case map_of (zip ''ABCDEFGHIJKLMNOPQRSTUVWXYZ'' ''abcdefghijklmnopqrstuvwxyz'') c of
        None \<Rightarrow> c
      | Some d \<Rightarrow> d)"

definition lower :: "string \<Rightarrow> string" where
  "lower s = map lower_char s"

text \<open>
  \<^verbatim>\<open>kw in s\<close> on two strings is contiguous containment, \<^term>\<open>sublist kw s\<close>;
  \<^verbatim>\<open>any(kw in s for kw in kws)\<close> is \<^term>\<open>list_ex (\<lambda>kw. sublist kw s) kws\<close> and the
  comprehension \<^verbatim>\<open>[kw for kw in kws if kw in s]\<close> is a \<^const>\<open>filter\<close>.
\<close>

definition any_in :: "string list \<Rightarrow> string \<Rightarrow> bool" where
  "any_in kws s = list_ex (\<lambda>kw. sublist kw s) kws"

definition matches :: "string list \<Rightarrow> string \<Rightarrow> string list" where
  "matches kws s = filter (\<lambda>kw. sublist kw s) kws"

text \<open>\<^verbatim>\<open>sep.join(parts)\<close>.\<close>

fun join :: "string \<Rightarrow> string list \<Rightarrow> string" where
  "join sep [] = []"
| "join sep [p] = p"
| "join sep (p # q # ps) = p @ sep @ join sep (q # ps)"

text \<open>Truth value of a Python object, as \<^verbatim>\<open>and\<close> and \<^verbatim>\<open>if\<close> read it.\<close>

fun truthy :: "py_value \<Rightarrow> bool" where
  "truthy PyNone = False"
| "truthy (PyBool b) = b"
| "truthy (PyInt n) = (n \<noteq> 0)"
| "truthy (PyStr s) = (s \<noteq> [])"
| "truthy (PyList vs) = (vs \<noteq> [])"

text \<open>\<^verbatim>\<open>d.get(key, default)\<close>.\<close>

definition dict_get :: "(string \<rightharpoonup> py_value) \<Rightarrow> string \<Rightarrow> py_value \<Rightarrow> py_value" where
  "dict_get d k dflt = (case d k of None \<Rightarrow> dflt | Some v \<Rightarrow> v)"


section \<open>Patient intelligence tools\<close>

subsection \<open>\<^verbatim>\<open>IntentClassificationTool._run\<close>\<close>

text \<open>The dictionary the tool serialises with \<^verbatim>\<open>json.dumps\<close>.\<close>

record classification =
  category :: string
  confidence :: real
  reasoning :: string
  keywords_matched :: "string list"

definition emergency_keywords :: "string list" where
  "emergency_keywords =
     [''chest pain'', ''can't breathe'', ''can not breathe'', ''cannot breathe'',
      ''severe bleeding'', ''unconscious'', ''heart attack'', ''stroke'',
      ''choking'', ''severe pain'', ''dying'']"

definition medical_keywords :: "string list" where
  "medical_keywords =
     [''pain'', ''hurt'', ''medication'', ''medicine'', ''pill'', ''doctor'', ''nurse'',
      ''sick'', ''nausea'', ''dizzy'', ''fever'', ''symptom'', ''treatment'',
      ''injection'', ''iv'', ''blood pressure'', ''temperature'']"

definition non_medical_keywords :: "string list" where
  "non_medical_keywords =
     [''water'', ''temperature'', ''tv'', ''television'', ''light'', ''blanket'',
      ''pillow'', ''room'', ''visitor'', ''time'', ''date'', ''weather'',
      ''bathroom'', ''toilet'', ''window'', ''curtain'']"

definition IntentClassificationTool_run :: "string \<Rightarrow> string \<Rightarrow> classification" where
  "IntentClassificationTool_run query patient_context =
     (let query_lower = lower query in
      if any_in emergency_keywords query_lower then
        \<lparr>category = ''EMERGENCY'', confidence = 0.99,
         reasoning = ''Query contains emergency keywords indicating immediate medical attention needed'',
         keywords_matched = matches emergency_keywords query_lower\<rparr>
      else
        let medical_matches = matches medical_keywords query_lower in
        if medical_matches \<noteq> [] then
          \<lparr>category = ''MEDICAL'', confidence = 0.85,
           reasoning = ''Query contains medical-related keywords requiring staff attention'',
           keywords_matched = medical_matches\<rparr>
        else
          let non_medical_matches = matches non_medical_keywords query_lower in
          if non_medical_matches \<noteq> [] then
            \<lparr>category = ''NON_MEDICAL'', confidence = 0.90,
             reasoning = ''Query is about comfort or environmental controls'',
             keywords_matched = non_medical_matches\<rparr>
          else
            \<lparr>category = ''MEDICAL'', confidence = 0.60,
             reasoning = ''Unable to definitively classify - defaulting to MEDICAL for safety'',
             keywords_matched = []\<rparr>)"

subsection \<open>\<^verbatim>\<open>DistressDetectionTool._run\<close>\<close>

record distress_signals =
  distress_detected :: bool
  distress_level :: string
  indicators :: "string list"
  recommended_action :: string
  conversation_history_length :: nat

definition high_distress_words :: "string list" where
  "high_distress_words =
     [''help'', ''please help'', ''emergency'', ''urgent'', ''severe'',
      ''unbearable'', ''can't take it'', ''worse'', ''getting worse'']"

definition medium_distress_words :: "string list" where
  "medium_distress_words =
     [''uncomfortable'', ''need'', ''please'', ''soon'', ''waiting'',
      ''still'', ''again'', ''repeatedly'']"

text \<open>\<^verbatim>\<open>conversation_history[-3:]\<close>: the last three entries, or all of them.\<close>

definition last3 :: "'a list \<Rightarrow> 'a list" where
  "last3 xs = drop (length xs - 3) xs"

text \<open>
  The three checks of the source, each reading and updating the pair of locals
  \<^verbatim>\<open>(distress_level, distress_indicators)\<close>.
\<close>

definition check_high :: "string \<Rightarrow> string \<times> string list \<Rightarrow> string \<times> string list" where
  "check_high query_lower st =
     (let high_matches = matches high_distress_words query_lower in
      if high_matches \<noteq> [] then (''HIGH'', snd st @ high_matches) else st)"

definition check_repeated ::
    "string \<Rightarrow> string list \<Rightarrow> string \<times> string list \<Rightarrow> string \<times> string list" where
  "check_repeated query_lower conversation_history st =
     (if conversation_history \<noteq> [] \<and> length conversation_history \<ge> 2 then
        let recent_topics = map lower (last3 conversation_history) in
        if list_ex (\<lambda>topic. sublist query_lower topic \<or> sublist topic query_lower) recent_topics
        then ((if fst st = ''NONE'' then ''MEDIUM'' else fst st), snd st @ [''repeated_request''])
        else st
      else st)"

definition check_medium :: "string \<Rightarrow> string \<times> string list \<Rightarrow> string \<times> string list" where
  "check_medium query_lower st =
     (if fst st = ''NONE'' then
        let medium_matches = matches medium_distress_words query_lower in
        if medium_matches \<noteq> [] then (''LOW'', snd st @ medium_matches) else st
      else st)"

definition recommended_action_of :: "string \<Rightarrow> string" where
  "recommended_action_of level =
     (case map_of
        [(''HIGH'', ''Escalate to nurse immediately, prioritize response''),
         (''MEDIUM'', ''Flag for nurse attention, expedite approval process''),
         (''LOW'', ''Note in log, standard processing''),
         (''NONE'', ''Standard processing'')] level of
        None \<Rightarrow> ''Standard processing''
      | Some a \<Rightarrow> a)"

definition DistressDetectionTool_run :: "string \<Rightarrow> string list option \<Rightarrow> distress_signals" where
  "DistressDetectionTool_run query conversation_history_arg =
     (let conversation_history =
            (case conversation_history_arg of None \<Rightarrow> [] | Some h \<Rightarrow> h);
          query_lower = lower query;
          st = check_medium query_lower
                 (check_repeated query_lower conversation_history
                    (check_high query_lower (''NONE'', [])))
      in \<lparr>distress_detected = (fst st \<noteq> ''NONE''),
          distress_level = fst st,
          indicators = snd st,
          recommended_action = recommended_action_of (fst st),
          conversation_history_length = length conversation_history\<rparr>)"


section \<open>Central orchestrator tools\<close>

subsection \<open>\<^verbatim>\<open>PolicyEvaluationTool._run\<close>\<close>

text \<open>The locals the five policies read and assign, in the order the source initialises them.\<close>

record policy_locals =
  requires_approval :: bool
  escalation_level :: string
  applicable_policies :: "string list"
  reasoning_parts :: "string list"
  estimated_response_time :: int

text \<open>The dictionary \<^verbatim>\<open>decision\<close> built at the end.\<close>

record policy_decision =
  requires_human_approval :: bool
  decision_escalation_level :: string
  decision_reasoning :: string
  decision_applicable_policies :: "string list"
  decision_estimated_response_time :: int

definition initial_locals :: policy_locals where
  "initial_locals =
     \<lparr>requires_approval = False, escalation_level = ''NONE'', applicable_policies = [],
      reasoning_parts = [], estimated_response_time = 60\<rparr>"

text \<open>Policy 1 (emergency) and, as its \<^verbatim>\<open>elif\<close>, policy 2 (medical requests).\<close>

definition policy_1_2 :: "string \<Rightarrow> string \<Rightarrow> policy_locals \<Rightarrow> policy_locals" where
  "policy_1_2 intent urgency l =
     (if intent = ''EMERGENCY'' \<or> urgency = ''CRITICAL'' then
        l\<lparr>requires_approval := False,
          escalation_level := ''EMERGENCY'',
          applicable_policies := applicable_policies l @ [''EMERGENCY_PROTOCOL''],
          reasoning_parts := reasoning_parts l @
            [''Emergency detected - immediate escalation to emergency staff''],
          estimated_response_time := 60\<rparr>
      else if intent = ''MEDICAL'' then
        let l1 = l\<lparr>requires_approval := True,
                    escalation_level := ''NURSE'',
                    applicable_policies :=
                      applicable_policies l @ [''MEDICAL_REQUEST_APPROVAL_REQUIRED''],
                    reasoning_parts := reasoning_parts l @
                      [''Medical request requires nurse approval before response''],
                    estimated_response_time := 300\<rparr>
        in if urgency \<in> set [''HIGH'', ''CRITICAL''] then
             l1\<lparr>escalation_level := ''DOCTOR'',
                applicable_policies :=
                  applicable_policies l1 @ [''HIGH_URGENCY_DOCTOR_NOTIFICATION''],
                reasoning_parts := reasoning_parts l1 @
                  [''High urgency medical request escalated to doctor''],
                estimated_response_time := 180\<rparr>
           else l1
      else l)"

definition medication_words :: "string list" where
  "medication_words = [''medication'', ''medicine'', ''pill'', ''drug'', ''painkiller'']"

text \<open>Policy 3: medication requests always need the nurse.\<close>

definition policy_3 :: "string \<Rightarrow> policy_locals \<Rightarrow> policy_locals" where
  "policy_3 query_lower l =
     (if any_in medication_words query_lower then
        l\<lparr>requires_approval := True,
          escalation_level := ''NURSE'',
          applicable_policies := applicable_policies l @ [''MEDICATION_REQUEST_NURSE_REQUIRED''],
          reasoning_parts := reasoning_parts l @
            [''Medication-related request requires mandatory nurse approval''],
          estimated_response_time := 300\<rparr>
      else l)"

text \<open>Policy 4: distress escalation, only from escalation level NONE.\<close>

definition policy_4 :: "string \<Rightarrow> policy_locals \<Rightarrow> policy_locals" where
  "policy_4 distress l =
     (if distress \<in> set [''MEDIUM'', ''HIGH''] \<and> escalation_level l = ''NONE'' then
        l\<lparr>escalation_level := ''NURSE'',
          applicable_policies := applicable_policies l @ [''DISTRESS_ESCALATION''],
          reasoning_parts := reasoning_parts l @
            [''Patient showing '' @ distress @ '' distress - notifying nurse''],
          estimated_response_time := 180\<rparr>
      else l)"

text \<open>Policy 5: non-medical requests can be answered automatically.\<close>

definition policy_5 :: "string \<Rightarrow> policy_locals \<Rightarrow> policy_locals" where
  "policy_5 intent l =
     (if intent = ''NON_MEDICAL'' \<and> escalation_level l = ''NONE'' then
        l\<lparr>requires_approval := False,
          applicable_policies := applicable_policies l @ [''NON_MEDICAL_AUTO_RESPONSE''],
          reasoning_parts := reasoning_parts l @
            [''Non-medical request approved for automatic response''],
          estimated_response_time := 5\<rparr>
      else l)"

definition build_decision :: "policy_locals \<Rightarrow> policy_decision" where
  "build_decision l =
     \<lparr>requires_human_approval = requires_approval l,
      decision_escalation_level = escalation_level l,
      decision_reasoning =
        (if reasoning_parts l \<noteq> [] then join ''. '' (reasoning_parts l)
         else ''Standard processing''),
      decision_applicable_policies = applicable_policies l,
      decision_estimated_response_time = estimated_response_time l\<rparr>"

text \<open>
  \<^verbatim>\<open>patient_context.get("original_query", "").lower()\<close>: a value that is not a
  \<^verbatim>\<open>str\<close> has no usable \<^verbatim>\<open>lower\<close>, and the call raises out of the tool.
\<close>

definition original_query_lower :: "(string \<rightharpoonup> py_value) \<Rightarrow> error + string" where
  "original_query_lower patient_context =
     (case dict_get patient_context ''original_query'' (PyStr []) of
        PyStr s \<Rightarrow> Inr (lower s)
      | _ \<Rightarrow> Inl AttributeError)"

definition PolicyEvaluationTool_run ::
    "string \<Rightarrow> string \<Rightarrow> (string \<rightharpoonup> py_value) \<Rightarrow> string \<Rightarrow> error + policy_decision" where
  "PolicyEvaluationTool_run intent urgency patient_context distress =
     (let l12 = policy_1_2 intent urgency initial_locals in
      case original_query_lower patient_context of
        Inl e \<Rightarrow> Inl e
      | Inr query_lower \<Rightarrow>
          Inr (build_decision (policy_5 intent (policy_4 distress (policy_3 query_lower l12)))))"

text \<open>
  The escalation levels in the order in which \<^verbatim>\<open>models.PolicyDecision\<close> lists them,
  NONE, NURSE, DOCTOR, EMERGENCY; a string that is no level has rank 0.
\<close>

definition escalation_rank :: "string \<Rightarrow> nat" where
  "escalation_rank lvl =
     (if lvl = ''NURSE'' then 1 else if lvl = ''DOCTOR'' then 2
      else if lvl = ''EMERGENCY'' then 3 else 0)"


subsection \<open>\<^verbatim>\<open>ResponseGenerationTool._run\<close>\<close>

text \<open>
  The tool reads the wall clock in one branch. The reading \<^verbatim>\<open>datetime.now()\<close> is an
  explicit argument; only the hour (0 to 23) and the minute are formatted.
\<close>

record datetime =
  hour :: nat
  minute :: nat

definition digit_char :: "nat \<Rightarrow> char" where
  "digit_char d = ''0123456789'' ! (d mod 10)"

definition two_digits :: "nat \<Rightarrow> string" where
  "two_digits n = [digit_char (n div 10), digit_char n]"

text \<open>\<^verbatim>\<open>strftime('%I:%M %p')\<close>: twelve-hour clock, minute, AM or PM.\<close>

definition strftime_I_M_p :: "datetime \<Rightarrow> string" where
  "strftime_I_M_p t =
     two_digits (if hour t mod 12 = 0 then 12 else hour t mod 12) @ '':'' @
     two_digits (minute t) @ '' '' @ (if hour t < 12 then ''AM'' else ''PM'')"

definition non_medical_response :: "datetime \<Rightarrow> string \<Rightarrow> string" where
  "non_medical_response now query_lower =
     (if sublist ''water'' query_lower then
        ''I'll let your nurse know you'd like some water. They'll bring it to you shortly.''
      else if any_in [''temperature'', ''hot'', ''cold'', ''warm''] query_lower then
        ''I can help with that. I'll notify your nurse to adjust the room temperature. '' @
        ''In the meantime, would you like an extra blanket?''
      else if any_in [''tv'', ''television''] query_lower then
        ''The TV remote should be on your bedside table. If you can't find it, I'll have your nurse bring you one.''
      else if any_in [''light'', ''lights''] query_lower then
        ''You can adjust the lights using the control panel on the side of your bed. Would you like me to have your nurse help you with that?''
      else if any_in [''visitor'', ''family''] query_lower then
        ''Visiting hours are from 10 AM to 8 PM daily. Visitors should check in at the nurse's station.''
      else if any_in [''time'', ''what time''] query_lower then
        ''The current time is '' @ strftime_I_M_p now @ ''.''
      else
        ''I've noted your request and will let your nurse know. '' @
        ''They'll assist you as soon as possible.'')"

definition ResponseGenerationTool_run ::
    "datetime \<Rightarrow> string \<Rightarrow> string \<Rightarrow> (string \<rightharpoonup> py_value) \<Rightarrow> string \<Rightarrow> string" where
  "ResponseGenerationTool_run now intent patient_context policy_decision original_query =
     (let escalation = dict_get policy_decision ''escalation_level'' (PyStr ''NONE'');
          requires_approval = dict_get policy_decision ''requires_human_approval'' (PyBool False)
      in
      if escalation = PyStr ''EMERGENCY'' then
        ''I've immediately notified the emergency response team. '' @
        ''Someone will be with you right away. Please stay calm and remain where you are.''
      else if truthy requires_approval \<and> escalation \<in> set [PyStr ''NURSE'', PyStr ''DOCTOR''] then
        let staff_type = (if escalation = PyStr ''NURSE'' then ''nurse'' else ''doctor'') in
        ''I understand you need assistance. I've notified your '' @ staff_type @
        '' about your request. '' @
        ''They will be with you shortly to help. Is there anything else I can assist you with '' @
        ''while you wait?''
      else if intent = ''NON_MEDICAL'' then
        non_medical_response now (lower original_query)
      else
        ''I've received your request and am coordinating with the care team. '' @
        ''Someone will be with you shortly.'')"

text \<open>The decision dictionary, as \<^verbatim>\<open>json.loads\<close> gives it back to the next tool.\<close>

definition decision_dict :: "policy_decision \<Rightarrow> (string \<rightharpoonup> py_value)" where
  "decision_dict d =
     [''requires_human_approval'' \<mapsto> PyBool (requires_human_approval d),
      ''escalation_level'' \<mapsto> PyStr (decision_escalation_level d),
      ''reasoning'' \<mapsto> PyStr (decision_reasoning d),
      ''applicable_policies'' \<mapsto> PyList (map PyStr (decision_applicable_policies d)),
      ''estimated_response_time'' \<mapsto> PyInt (decision_estimated_response_time d)]"

subsection \<open>\<^verbatim>\<open>NotificationTool._run\<close>\<close>

record notification =
  notification_id :: string
  recipient_id :: string
  channels :: "string list"
  notification_status :: string
  notification_timestamp :: string

record notification_result =
  sent :: bool
  recipient_count :: nat
  notifications :: "notification list"
  result_priority :: string
  result_patient_id :: string

definition select_channels :: "string \<Rightarrow> string list" where
  "select_channels priority =
     (let channels = [''dashboard''];
          channels = (if priority \<in> set [''HIGH'', ''CRITICAL'']
                      then channels @ [''mobile_push''] else channels);
          channels = (if priority = ''CRITICAL'' then channels @ [''sms''] else channels)
      in channels)"

text \<open>
  The loop over the recipients. The \<open>k\<close>-th pass draws \<^verbatim>\<open>str(uuid.uuid4())\<close> and
  \<^verbatim>\<open>datetime.utcnow().isoformat()\<close>, given as \<open>uuid4 k\<close> and \<open>utcnow k\<close>.
\<close>

fun notify_each ::
    "string list \<Rightarrow> (nat \<Rightarrow> string) \<Rightarrow> (nat \<Rightarrow> string) \<Rightarrow> nat \<Rightarrow> string list \<Rightarrow> notification list" where
  "notify_each chans uuid4 utcnow k [] = []"
| "notify_each chans uuid4 utcnow k (r # rs) =
     \<lparr>notification_id = uuid4 k, recipient_id = r, channels = chans,
      notification_status = ''SENT'', notification_timestamp = utcnow k\<rparr>
     # notify_each chans uuid4 utcnow (Suc k) rs"

definition NotificationTool_run ::
    "(nat \<Rightarrow> string) \<Rightarrow> (nat \<Rightarrow> string) \<Rightarrow>
     string list \<Rightarrow> string \<Rightarrow> string \<Rightarrow> string \<Rightarrow> string \<Rightarrow> notification_result" where
  "NotificationTool_run uuid4 utcnow recipient_ids message priority patient_id request_type =
     (let chans = select_channels priority;
          notifications_sent = notify_each chans uuid4 utcnow 0 recipient_ids
      in \<lparr>sent = True, recipient_count = length recipient_ids,
          notifications = notifications_sent,
          result_priority = priority, result_patient_id = patient_id\<rparr>)"

subsection \<open>\<^verbatim>\<open>ApprovalWorkflowTool._run\<close>\<close>

record queue_entry =
  entry_queue_id :: string
  entry_patient_id :: py_value
  entry_patient_name :: py_value
  entry_bed_number :: py_value
  entry_request_type :: string
  entry_query_text :: string
  entry_context_summary :: py_value
  entry_status :: string
  entry_assigned_to :: py_value
  entry_created_at :: string
  entry_priority :: string
  sla_minutes :: int

record approval_created =
  created_queue_id :: string
  created_status :: string
  created_assigned_to :: py_value
  created_priority :: string
  expected_response_time_minutes :: int

definition assign_staff :: "string \<Rightarrow> (string \<rightharpoonup> py_value) \<Rightarrow> string \<Rightarrow> py_value" where
  "assign_staff request_type patient_data priority =
     (if sublist ''medication'' (lower request_type) then
        dict_get patient_data ''primary_nurse_id'' (PyStr ''UNASSIGNED'')
      else if priority = ''CRITICAL'' then
        dict_get patient_data ''attending_physician_id'' (PyStr ''UNASSIGNED'')
      else
        dict_get patient_data ''primary_nurse_id'' (PyStr ''UNASSIGNED''))"

definition sla_of :: "string \<Rightarrow> int" where
  "sla_of priority =
     (case map_of [(''CRITICAL'', 5), (''HIGH'', 15), (''MEDIUM'', 30), (''LOW'', 60)] priority of
        None \<Rightarrow> 30
      | Some m \<Rightarrow> m)"

text \<open>
  The local \<^verbatim>\<open>queue_entry\<close>. \<open>today\<close> is \<^verbatim>\<open>utcnow().strftime('%Y%m%d')\<close>, \<open>uuid\<close> is
  \<^verbatim>\<open>str(uuid.uuid4())\<close> and \<open>created\<close> is \<^verbatim>\<open>utcnow().isoformat()\<close>.
\<close>

definition make_queue_entry ::
    "string \<Rightarrow> string \<Rightarrow> string \<Rightarrow>
     string \<Rightarrow> (string \<rightharpoonup> py_value) \<Rightarrow> string \<Rightarrow> string \<Rightarrow> queue_entry" where
  "make_queue_entry today uuid created request_type patient_data original_query priority =
     \<lparr>entry_queue_id = ''APR-'' @ today @ ''-'' @ take 8 uuid,
      entry_patient_id = dict_get patient_data ''hospital_id'' PyNone,
      entry_patient_name = dict_get patient_data ''name'' (PyStr ''Unknown''),
      entry_bed_number = dict_get patient_data ''bed_number'' PyNone,
      entry_request_type = request_type,
      entry_query_text = original_query,
      entry_context_summary = dict_get patient_data ''context_summary'' (PyStr []),
      entry_status = ''PENDING'',
      entry_assigned_to = assign_staff request_type patient_data priority,
      entry_created_at = created,
      entry_priority = priority,
      sla_minutes = sla_of priority\<rparr>"

definition ApprovalWorkflowTool_run ::
    "string \<Rightarrow> string \<Rightarrow> string \<Rightarrow>
     string \<Rightarrow> (string \<rightharpoonup> py_value) \<Rightarrow> string \<Rightarrow> string \<Rightarrow> approval_created" where
  "ApprovalWorkflowTool_run today uuid created request_type patient_data original_query priority =
     (let e = make_queue_entry today uuid created request_type patient_data original_query priority
      in \<lparr>created_queue_id = entry_queue_id e,
          created_status = ''CREATED'',
          created_assigned_to = entry_assigned_to e,
          created_priority = priority,
          expected_response_time_minutes = sla_minutes e\<rparr>)"

subsection \<open>\<^verbatim>\<open>AuditLoggingTool._run\<close>\<close>

record audit_entry =
  log_id :: string
  audit_timestamp :: string
  event_type :: string
  audit_patient_id :: string
  query_text :: string
  intent_category :: string
  urgency_level :: string
  audit_policy_decision :: "string \<rightharpoonup> py_value"
  response_text :: string
  staff_notified :: "string list"
  approval_required :: bool
  agent_chain :: string
  resolution_status :: string

text \<open>
  The local \<^verbatim>\<open>audit_entry\<close>. \<open>stamp\<close> is \<^verbatim>\<open>utcnow().strftime('%Y%m%d%H%M%S')\<close>,
  \<open>uuid\<close> is \<^verbatim>\<open>str(uuid.uuid4())\<close> and \<open>isotime\<close> is \<^verbatim>\<open>utcnow().isoformat()\<close>.
\<close>

definition make_audit_entry ::
    "string \<Rightarrow> string \<Rightarrow> string \<Rightarrow>
     string \<Rightarrow> string \<Rightarrow> string \<Rightarrow> string \<Rightarrow> string \<Rightarrow> (string \<rightharpoonup> py_value) \<Rightarrow>
     string \<Rightarrow> string list \<Rightarrow> bool \<Rightarrow> audit_entry" where
  "make_audit_entry stamp uuid isotime ev pid q intent urgency decision response staff approval =
     \<lparr>log_id = ''LOG-'' @ stamp @ ''-'' @ take 8 uuid,
      audit_timestamp = isotime,
      event_type = ev,
      audit_patient_id = pid,
      query_text = q,
      intent_category = intent,
      urgency_level = urgency,
      audit_policy_decision = decision,
      response_text = response,
      staff_notified = staff,
      approval_required = approval,
      agent_chain = ''PatientIntelligenceAgent -> OrchestratorAgent'',
      resolution_status = (if \<not> approval then ''COMPLETED'' else ''PENDING'')\<rparr>"

text \<open>The tool returns the log id of the entry it has built.\<close>

definition AuditLoggingTool_run ::
    "string \<Rightarrow> string \<Rightarrow> string \<Rightarrow>
     string \<Rightarrow> string \<Rightarrow> string \<Rightarrow> string \<Rightarrow> string \<Rightarrow> (string \<rightharpoonup> py_value) \<Rightarrow>
     string \<Rightarrow> string list \<Rightarrow> bool \<Rightarrow> string" where
  "AuditLoggingTool_run stamp uuid isotime ev pid q intent urgency decision response staff approval =
     log_id (make_audit_entry stamp uuid isotime ev pid q intent urgency decision response staff approval)"


section \<open>Staff approval endpoints of \<^verbatim>\<open>main.py\<close>\<close>






section \<open>Notions used to state the properties\<close>

text \<open>\<^verbatim>\<open>str.isspace()\<close> on one ASCII character.\<close>

definition isspace :: "char \<Rightarrow> bool" where
  "isspace c \<longleftrightarrow>
     c \<in> set [CHR 0x09, CHR 0x0A, CHR 0x0B, CHR 0x0C, CHR 0x0D,
              CHR 0x1C, CHR 0x1D, CHR 0x1E, CHR 0x1F, CHR 0x20]"

text \<open>
  The path condition of the one branch of \<^const>\<open>ResponseGenerationTool_run\<close> that
  formats \<^verbatim>\<open>datetime.now()\<close>: no emergency reply, no approval reply, intent
  NON\_MEDICAL, none of the five earlier keyword groups and one of the time keywords.
\<close>

definition reads_clock :: "string \<Rightarrow> (string \<rightharpoonup> py_value) \<Rightarrow> string \<Rightarrow> bool" where
  "reads_clock intent policy_decision original_query =
     (let escalation = dict_get policy_decision ''escalation_level'' (PyStr ''NONE'');
          requires_approval = dict_get policy_decision ''requires_human_approval'' (PyBool False);
          query_lower = lower original_query
      in escalation \<noteq> PyStr ''EMERGENCY'' \<and>
         \<not> (truthy requires_approval \<and> escalation \<in> set [PyStr ''NURSE'', PyStr ''DOCTOR'']) \<and>
         intent = ''NON_MEDICAL'' \<and>
         \<not> sublist ''water'' query_lower \<and>
         \<not> any_in [''temperature'', ''hot'', ''cold'', ''warm''] query_lower \<and>
         \<not> any_in [''tv'', ''television''] query_lower \<and>
         \<not> any_in [''light'', ''lights''] query_lower \<and>
         \<not> any_in [''visitor'', ''family''] query_lower \<and>
         any_in [''time'', ''what time''] query_lower)"

text \<open>
  The repetition test of \<^const>\<open>check_repeated\<close> on its own: the lowered query is
  contained in, or contains, one of the last three lowered history entries.
\<close>

definition repeated_request :: "string \<Rightarrow> string list \<Rightarrow> bool" where
  "repeated_request query_lower conversation_history =
     list_ex (\<lambda>topic. sublist query_lower topic \<or> sublist topic query_lower)
       (map lower (last3 conversation_history))"


section \<open>Keyword matching\<close>

lemma any_in_iff: "any_in kws s \<longleftrightarrow> (\<exists>kw \<in> set kws. sublist kw s)"
  by (simp add: any_in_def list_ex_iff)

lemma matches_empty_iff: "matches kws s = [] \<longleftrightarrow> \<not> any_in kws s"
  by (auto simp: matches_def any_in_iff filter_empty_conv)

lemma sublist_lower: "sublist kw s \<Longrightarrow> sublist (lower kw) (lower s)"
  unfolding lower_def by (rule map_mono_sublist)

text \<open>The keywords are written in lower case, so lowering leaves them as they are.\<close>

lemma medication_words_lower: "kw \<in> set medication_words \<Longrightarrow> lower kw = kw"
  by (auto simp: medication_words_def lower_def lower_char_def)

lemma emergency_keywords_lower: "kw \<in> set emergency_keywords \<Longrightarrow> lower kw = kw"
  by (auto simp: emergency_keywords_def lower_def lower_char_def)


section \<open>The policy engine\<close>

lemma policy_3_fires:
  "any_in medication_words q \<Longrightarrow>
   requires_approval (policy_3 q l) \<and> escalation_level (policy_3 q l) = ''NURSE'' \<and>
   estimated_response_time (policy_3 q l) = 300 \<and>
   ''MEDICATION_REQUEST_NURSE_REQUIRED'' \<in> set (applicable_policies (policy_3 q l))"
  by (simp add: policy_3_def)

lemma policy_4_not_none: "escalation_level l \<noteq> ''NONE'' \<Longrightarrow> policy_4 d l = l"
  by (simp add: policy_4_def)

lemma policy_5_not_none: "escalation_level l \<noteq> ''NONE'' \<Longrightarrow> policy_5 i l = l"
  by (simp add: policy_5_def)

text \<open>
  Claim C2. Whenever the original query carried by the context contains one of the
  medication words (medication, medicine, pill, drug, painkiller), as written or after
  lowering, the policy engine returns a decision for every intent, urgency and distress
  level; the decision requires human approval and its escalation level is NURSE, which
  is at least NURSE in the order NONE, NURSE, DOCTOR, EMERGENCY. The estimated response
  time is 300 seconds and the tag MEDICATION\_REQUEST\_NURSE\_REQUIRED is recorded.
\<close>

theorem medication_requires_nurse_approval:
  assumes kw: "kw \<in> set medication_words"
    and occ: "sublist kw query \<or> sublist kw (lower query)"
    and ctx: "patient_context ''original_query'' = Some (PyStr query)"
  shows "\<exists>d. PolicyEvaluationTool_run intent urgency patient_context distress = Inr d \<and>
             requires_human_approval d \<and>
             decision_escalation_level d = ''NURSE'' \<and>
             escalation_rank ''NURSE'' \<le> escalation_rank (decision_escalation_level d) \<and>
             decision_estimated_response_time d = 300 \<and>
             ''MEDICATION_REQUEST_NURSE_REQUIRED'' \<in> set (decision_applicable_policies d)"
proof -
  have "sublist kw (lower query)"
    using occ sublist_lower [of kw query] medication_words_lower [OF kw] by auto
  with kw have hit: "any_in medication_words (lower query)"
    by (auto simp: any_in_iff)
  define l3 where "l3 = policy_3 (lower query) (policy_1_2 intent urgency initial_locals)"
  have p3: "requires_approval l3" "escalation_level l3 = ''NURSE''"
    "estimated_response_time l3 = 300"
    "''MEDICATION_REQUEST_NURSE_REQUIRED'' \<in> set (applicable_policies l3)"
    using policy_3_fires [OF hit] by (simp_all add: l3_def)
  have ne: "escalation_level l3 \<noteq> ''NONE''"
    using p3(2) by simp
  have l5: "policy_5 intent (policy_4 distress l3) = l3"
    using ne by (simp add: policy_4_not_none policy_5_not_none)
  have q: "original_query_lower patient_context = Inr (lower query)"
    using ctx by (simp add: original_query_lower_def dict_get_def)
  have "PolicyEvaluationTool_run intent urgency patient_context distress = Inr (build_decision l3)"
    using q l5 by (simp add: PolicyEvaluationTool_run_def l3_def)
  then show ?thesis
    using p3 by (simp add: build_decision_def escalation_rank_def)
qed

theorem medication_requires_nurse_approval_witness:
  "\<exists>d. PolicyEvaluationTool_run ''EMERGENCY'' ''HIGH''
          [''original_query'' \<mapsto> PyStr ''Can I have my Pill?''] ''HIGH'' = Inr d \<and>
       requires_human_approval d \<and> decision_escalation_level d = ''NURSE'' \<and>
       escalation_rank ''NURSE'' \<le> escalation_rank (decision_escalation_level d) \<and>
       decision_estimated_response_time d = 300 \<and>
       ''MEDICATION_REQUEST_NURSE_REQUIRED'' \<in> set (decision_applicable_policies d)"
proof -
  have kw: "''pill'' \<in> set medication_words"
    by (simp add: medication_words_def)
  have occ: "sublist ''pill'' ''Can I have my Pill?'' \<or> sublist ''pill'' (lower ''Can I have my Pill?'')"
    by (simp add: lower_def lower_char_def sublist_code)
  have ctx: "[''original_query'' \<mapsto> PyStr ''Can I have my Pill?''] ''original_query''
               = Some (PyStr ''Can I have my Pill?'')"
    by simp
  show ?thesis
    using medication_requires_nurse_approval
      [of "''pill''" "''Can I have my Pill?''" "[''original_query'' \<mapsto> PyStr ''Can I have my Pill?'']"
          "''EMERGENCY''" "''HIGH''" "''HIGH''", OF kw occ ctx]
    by simp
qed

text \<open>
  Claim C7. For intent NON\_MEDICAL and distress level NONE, when no other rule
  escalates (the urgency is not CRITICAL, so the emergency rule is silent, and the
  original query, absent or a string, holds no medication word), the policy engine
  returns a decision that requires no approval, with an estimated response time of at
  most 5 seconds and escalation level NONE.
\<close>

theorem non_medical_auto_response:
  assumes "intent = ''NON_MEDICAL''" and "distress = ''NONE''" and "urgency \<noteq> ''CRITICAL''"
    and ctx: "dict_get patient_context ''original_query'' (PyStr []) = PyStr query"
    and nomed: "\<not> any_in medication_words (lower query)"
  shows "\<exists>d. PolicyEvaluationTool_run intent urgency patient_context distress = Inr d \<and>
             \<not> requires_human_approval d \<and>
             decision_estimated_response_time d \<le> 5 \<and>
             decision_escalation_level d = ''NONE''"
  using assms
  by (simp add: PolicyEvaluationTool_run_def original_query_lower_def policy_1_2_def
      policy_3_def policy_4_def policy_5_def initial_locals_def build_decision_def)

theorem non_medical_auto_response_witness:
  "\<exists>d. PolicyEvaluationTool_run ''NON_MEDICAL'' ''LOW''
          [''original_query'' \<mapsto> PyStr ''Can I have water?''] ''NONE'' = Inr d \<and>
       \<not> requires_human_approval d \<and> decision_estimated_response_time d \<le> 5 \<and>
       decision_escalation_level d = ''NONE''"
proof -
  have ctx: "dict_get [''original_query'' \<mapsto> PyStr ''Can I have water?''] ''original_query'' (PyStr [])
               = PyStr ''Can I have water?''"
    by (simp add: dict_get_def)
  have nomed: "\<not> any_in medication_words (lower ''Can I have water?'')"
    by (simp add: any_in_def medication_words_def lower_def lower_char_def sublist_code)
  show ?thesis
    using non_medical_auto_response
      [of "''NON_MEDICAL''" "''NONE''" "''LOW''" "[''original_query'' \<mapsto> PyStr ''Can I have water?'']"
          "''Can I have water?''", OF refl refl _ ctx nomed]
    by simp
qed

section \<open>Notifications, approval queue entries and audit entries\<close>

lemma notify_each_recipients:
  "map recipient_id (notify_each chans uuid4 utcnow k rs) = rs"
  by (induction rs arbitrary: k) simp_all

lemma notify_each_channels:
  "n \<in> set (notify_each chans uuid4 utcnow k rs) \<Longrightarrow>
   channels n = chans \<and> notification_status n = ''SENT''"
  by (induction rs arbitrary: k) auto

lemma select_channels_cases:
  "select_channels priority =
     (if priority = ''CRITICAL'' then [''dashboard'', ''mobile_push'', ''sms'']
      else if priority = ''HIGH'' then [''dashboard'', ''mobile_push'']
      else [''dashboard''])"
  by (simp add: select_channels_def Let_def)

text \<open>
  Claim C9. A dispatch produces exactly one notification record per recipient, in the
  order of the recipient list. The channel list of every record contains the dashboard,
  contains the push channel (named \<^verbatim>\<open>mobile_push\<close> in the code) exactly when the priority
  is HIGH or CRITICAL, and contains sms exactly when the priority is CRITICAL.
\<close>

theorem notification_channels_by_priority:
  fixes uuid4 utcnow recipient_ids message priority patient_id request_type
  defines "r \<equiv> NotificationTool_run uuid4 utcnow recipient_ids message priority
                  patient_id request_type"
  shows "map recipient_id (notifications r) = recipient_ids \<and>
         length (notifications r) = length recipient_ids \<and>
         recipient_count r = length recipient_ids \<and>
         (\<forall>n \<in> set (notifications r).
            ''dashboard'' \<in> set (channels n) \<and>
            (''mobile_push'' \<in> set (channels n) \<longleftrightarrow>
               priority = ''HIGH'' \<or> priority = ''CRITICAL'') \<and>
            (''sms'' \<in> set (channels n) \<longleftrightarrow> priority = ''CRITICAL''))"
proof -
  have ns: "notifications r = notify_each (select_channels priority) uuid4 utcnow 0 recipient_ids"
    by (simp add: r_def NotificationTool_run_def Let_def)
  have recips: "map recipient_id (notifications r) = recipient_ids"
    by (simp add: ns notify_each_recipients)
  then have len: "length (notifications r) = length recipient_ids"
    by (metis length_map)
  have cnt: "recipient_count r = length recipient_ids"
    by (simp add: r_def NotificationTool_run_def Let_def)
  have chans: "\<forall>n \<in> set (notifications r).
            ''dashboard'' \<in> set (channels n) \<and>
            (''mobile_push'' \<in> set (channels n) \<longleftrightarrow>
               priority = ''HIGH'' \<or> priority = ''CRITICAL'') \<and>
            (''sms'' \<in> set (channels n) \<longleftrightarrow> priority = ''CRITICAL'')"
  proof
    fix n assume "n \<in> set (notifications r)"
    then have "channels n = select_channels priority"
      using notify_each_channels by (simp add: ns)
    then show "''dashboard'' \<in> set (channels n) \<and>
            (''mobile_push'' \<in> set (channels n) \<longleftrightarrow>
               priority = ''HIGH'' \<or> priority = ''CRITICAL'') \<and>
            (''sms'' \<in> set (channels n) \<longleftrightarrow> priority = ''CRITICAL'')"
      by (simp add: select_channels_cases)
  qed
  show ?thesis
    using recips len cnt chans by blast
qed

theorem notification_channels_by_priority_witness:
  "map recipient_id (notifications (NotificationTool_run (\<lambda>k. ''id'') (\<lambda>k. ''now'')
       [''NURSE_001'', ''DR_001''] ''msg'' ''HIGH'' ''PT-001'' ''medical'')) = [''NURSE_001'', ''DR_001''] \<and>
   map channels (notifications (NotificationTool_run (\<lambda>k. ''id'') (\<lambda>k. ''now'')
       [''NURSE_001'', ''DR_001''] ''msg'' ''HIGH'' ''PT-001'' ''medical''))
     = [''dashboard'', ''mobile_push''] # [''dashboard'', ''mobile_push''] # []"
  using notification_channels_by_priority
    [of "\<lambda>k. ''id''" "\<lambda>k. ''now''" "[''NURSE_001'', ''DR_001'']" "''msg''" "''HIGH''" "''PT-001''"
        "''medical''"]
  by (simp add: NotificationTool_run_def select_channels_def Let_def)

text \<open>
  Claim C8. An approval queue entry is assigned to the primary nurse when the request
  type mentions medication, else to the attending physician when the priority is
  CRITICAL, else to the primary nurse (each read from the patient data, UNASSIGNED when
  absent). Its SLA is exactly 5 minutes for CRITICAL, 15 for HIGH, 30 for MEDIUM and 60
  for LOW priority, and the tool reports that assignment and that SLA.
\<close>

theorem approval_assignment_and_sla:
  fixes today uuid created request_type patient_data original_query priority
  defines "e \<equiv> make_queue_entry today uuid created request_type patient_data original_query priority"
    and "out \<equiv> ApprovalWorkflowTool_run today uuid created request_type patient_data
                  original_query priority"
  shows "entry_assigned_to e =
           (if sublist ''medication'' (lower request_type)
            then dict_get patient_data ''primary_nurse_id'' (PyStr ''UNASSIGNED'')
            else if priority = ''CRITICAL''
            then dict_get patient_data ''attending_physician_id'' (PyStr ''UNASSIGNED'')
            else dict_get patient_data ''primary_nurse_id'' (PyStr ''UNASSIGNED'')) \<and>
         (priority = ''CRITICAL'' \<longrightarrow> sla_minutes e = 5) \<and>
         (priority = ''HIGH'' \<longrightarrow> sla_minutes e = 15) \<and>
         (priority = ''MEDIUM'' \<longrightarrow> sla_minutes e = 30) \<and>
         (priority = ''LOW'' \<longrightarrow> sla_minutes e = 60) \<and>
         entry_status e = ''PENDING'' \<and>
         created_assigned_to out = entry_assigned_to e \<and>
         expected_response_time_minutes out = sla_minutes e"
  by (simp add: e_def out_def ApprovalWorkflowTool_run_def make_queue_entry_def
      assign_staff_def sla_of_def Let_def)

theorem approval_assignment_and_sla_witness:
  "entry_assigned_to (make_queue_entry ''20260204'' ''0123456789abcdef'' ''t'' ''pain''
       [''primary_nurse_id'' \<mapsto> PyStr ''NURSE_001'', ''attending_physician_id'' \<mapsto> PyStr ''DR_001'']
       ''My leg hurts'' ''CRITICAL'') = PyStr ''DR_001'' \<and>
   sla_minutes (make_queue_entry ''20260204'' ''0123456789abcdef'' ''t'' ''pain''
       [''primary_nurse_id'' \<mapsto> PyStr ''NURSE_001'', ''attending_physician_id'' \<mapsto> PyStr ''DR_001'']
       ''My leg hurts'' ''CRITICAL'') = 5"
  using approval_assignment_and_sla
    [of "''20260204''" "''0123456789abcdef''" "''t''" "''pain''"
        "[''primary_nurse_id'' \<mapsto> PyStr ''NURSE_001'', ''attending_physician_id'' \<mapsto> PyStr ''DR_001'']"
        "''My leg hurts''" "''CRITICAL''"]
  by (simp add: dict_get_def lower_def lower_char_def sublist_code)

text \<open>
  Claim C10. The audit entry's resolution status is COMPLETED exactly when no approval
  is required and PENDING otherwise; ESCALATED is never produced, whatever the policy
  decision, intent and urgency recorded in the entry. The tool returns the entry's log id.
\<close>

theorem audit_resolution_status:
  fixes stamp uuid isotime ev pid q intent urgency decision response staff approval
  defines "e \<equiv> make_audit_entry stamp uuid isotime ev pid q intent urgency decision
                  response staff approval"
  shows "(resolution_status e = ''COMPLETED'' \<longleftrightarrow> \<not> approval) \<and>
         (resolution_status e = ''PENDING'' \<longleftrightarrow> approval) \<and>
         resolution_status e \<noteq> ''ESCALATED'' \<and>
         AuditLoggingTool_run stamp uuid isotime ev pid q intent urgency decision
           response staff approval = log_id e"
  by (simp add: e_def make_audit_entry_def AuditLoggingTool_run_def)

theorem audit_resolution_status_witness:
  "resolution_status (make_audit_entry ''20260204100000'' ''0123456789abcdef'' ''t''
       ''patient_query'' ''PT-001'' ''chest pain'' ''EMERGENCY'' ''CRITICAL''
       [''escalation_level'' \<mapsto> PyStr ''EMERGENCY'', ''requires_human_approval'' \<mapsto> PyBool False]
       ''r'' [''DR_001''] False) = ''COMPLETED''"
  using audit_resolution_status
    [of "''20260204100000''" "''0123456789abcdef''" "''t''" "''patient_query''" "''PT-001''"
        "''chest pain''" "''EMERGENCY''" "''CRITICAL''"
        "[''escalation_level'' \<mapsto> PyStr ''EMERGENCY'', ''requires_human_approval'' \<mapsto> PyBool False]"
        "''r''" "[''DR_001'']" False]
  by simp

section \<open>The staff approval endpoints\<close>



section \<open>Intent classification\<close>

lemma lower_char_not_upper:
  "c \<notin> set ''ABCDEFGHIJKLMNOPQRSTUVWXYZ'' \<Longrightarrow> lower_char c = c"
  by (simp add: lower_char_def)

lemma isspace_lower_char: "isspace c \<Longrightarrow> lower_char c = c"
  by (rule lower_char_not_upper) (auto simp: isspace_def)

lemma isspace_lower: "\<forall>c \<in> set s. isspace c \<Longrightarrow> lower s = s"
  unfolding lower_def by (rule map_idI) (simp add: isspace_lower_char)

text \<open>A word that starts with a character that is no white space is not part of a blank text.\<close>

lemma blank_contains_no_word:
  assumes blank: "\<forall>c \<in> set s. isspace c" and kw: "kw \<noteq> []" "\<not> isspace (hd kw)"
  shows "\<not> sublist kw (lower s)"
proof
  assume "sublist kw (lower s)"
  then have "set kw \<subseteq> set s"
    using set_mono_sublist [of kw "lower s"] isspace_lower [OF blank] by simp
  moreover have "hd kw \<in> set kw"
    using kw(1) by simp
  ultimately show False
    using blank kw(2) by blast
qed

lemma keywords_start_with_letter:
  "kw \<in> set (emergency_keywords @ medical_keywords @ non_medical_keywords) \<Longrightarrow>
   kw \<noteq> [] \<and> \<not> isspace (hd kw)"
  by (auto simp: emergency_keywords_def medical_keywords_def non_medical_keywords_def
      isspace_def)

lemma blank_matches_no_keyword:
  assumes "\<forall>c \<in> set s. isspace c"
  shows "\<not> any_in emergency_keywords (lower s)"
    and "\<not> any_in medical_keywords (lower s)"
    and "\<not> any_in non_medical_keywords (lower s)"
  using blank_contains_no_word [OF assms] keywords_start_with_letter
  by (auto simp: any_in_iff)

lemma classification_default:
  assumes "\<not> any_in emergency_keywords (lower query)"
    and "\<not> any_in medical_keywords (lower query)"
    and "\<not> any_in non_medical_keywords (lower query)"
  shows "category (IntentClassificationTool_run query patient_context) = ''MEDICAL''"
    and "confidence (IntentClassificationTool_run query patient_context) = 0.60"
  using assms by (simp_all add: IntentClassificationTool_run_def Let_def matches_empty_iff)

text \<open>
  Claim C5. A text in which no emergency, medical or non-medical keyword occurs is
  classified MEDICAL with confidence 0.60, never NON\_MEDICAL; and so is every text made
  of white space only, the empty text among them.
\<close>

theorem unclassifiable_defaults_to_medical:
  "(\<not> any_in emergency_keywords (lower query) \<and>
    \<not> any_in medical_keywords (lower query) \<and>
    \<not> any_in non_medical_keywords (lower query) \<longrightarrow>
      category (IntentClassificationTool_run query patient_context) = ''MEDICAL'' \<and>
      confidence (IntentClassificationTool_run query patient_context) = 0.60 \<and>
      category (IntentClassificationTool_run query patient_context) \<noteq> ''NON_MEDICAL'') \<and>
   ((\<forall>c \<in> set query. isspace c) \<longrightarrow>
      category (IntentClassificationTool_run query patient_context) = ''MEDICAL'' \<and>
      confidence (IntentClassificationTool_run query patient_context) = 0.60)"
  using classification_default [of query patient_context] blank_matches_no_keyword [of query]
  by simp

theorem unclassifiable_defaults_to_medical_witness:
  "category (IntentClassificationTool_run [CHR '' '', CHR 0x09, CHR '' ''] ''ctx'') = ''MEDICAL'' \<and>
   confidence (IntentClassificationTool_run [CHR '' '', CHR 0x09, CHR '' ''] ''ctx'') = 0.60 \<and>
   category (IntentClassificationTool_run [] ''ctx'') = ''MEDICAL'' \<and>
   category (IntentClassificationTool_run ''Hello there'' ''ctx'') = ''MEDICAL'' \<and>
   confidence (IntentClassificationTool_run ''Hello there'' ''ctx'') = 0.60"
proof -
  have blank: "\<forall>c \<in> set [CHR '' '', CHR 0x09, CHR '' '']. isspace c"
    by (simp add: isspace_def)
  have none: "\<not> any_in emergency_keywords (lower ''Hello there'') \<and>
    \<not> any_in medical_keywords (lower ''Hello there'') \<and>
    \<not> any_in non_medical_keywords (lower ''Hello there'')"
    by (simp add: any_in_def emergency_keywords_def medical_keywords_def
        non_medical_keywords_def lower_def lower_char_def sublist_code)
  show ?thesis
    using unclassifiable_defaults_to_medical [of "[CHR '' '', CHR 0x09, CHR '' '']" "''ctx''"]
      unclassifiable_defaults_to_medical [of "[]" "''ctx''"]
      unclassifiable_defaults_to_medical [of "''Hello there''" "''ctx''"]
      blank none
    by simp
qed

section \<open>Distress detection\<close>

lemma check_high_level:
  "fst (check_high q (''NONE'', [])) = (if any_in high_distress_words q then ''HIGH'' else ''NONE'')"
  by (simp add: check_high_def Let_def matches_empty_iff)

lemma check_repeated_level:
  "fst (check_repeated q h st) =
     (if 2 \<le> length h \<and> repeated_request q h \<and> fst st = ''NONE'' then ''MEDIUM'' else fst st)"
  by (auto simp: check_repeated_def repeated_request_def Let_def)

lemma check_medium_level:
  "fst (check_medium q st) =
     (if fst st = ''NONE'' \<and> any_in medium_distress_words q then ''LOW'' else fst st)"
  by (simp add: check_medium_def Let_def matches_empty_iff)

text \<open>
  Claim C4, as the code has it. The distress level is HIGH if a high-distress keyword
  occurs in the lowered query; else MEDIUM if the history has at least two entries and
  the lowered query is contained in, or contains, one of its last three lowered entries;
  else LOW if a medium-distress keyword occurs; else NONE. An absent history counts as
  empty.
\<close>

theorem distress_level_scoring:
  fixes query :: string and conversation_history :: "string list option"
  defines "h \<equiv> (case conversation_history of None \<Rightarrow> [] | Some h \<Rightarrow> h)"
  shows "distress_level (DistressDetectionTool_run query conversation_history) =
           (if any_in high_distress_words (lower query) then ''HIGH''
            else if 2 \<le> length h \<and> repeated_request (lower query) h then ''MEDIUM''
            else if any_in medium_distress_words (lower query) then ''LOW''
            else ''NONE'')"
proof -
  have "distress_level (DistressDetectionTool_run query conversation_history) =
          fst (check_medium (lower query)
                 (check_repeated (lower query) h (check_high (lower query) (''NONE'', []))))"
    by (simp add: DistressDetectionTool_run_def Let_def h_def)
  then show ?thesis
    by (simp add: check_medium_level check_repeated_level check_high_level)
qed

theorem distress_level_scoring_witness:
  "distress_level (DistressDetectionTool_run ''Can I have water?''
      (Some [''Is the doctor coming?'', ''Can I have water?''])) = ''MEDIUM''"
proof -
  have "\<not> any_in high_distress_words (lower ''Can I have water?'')"
    by (simp add: any_in_def high_distress_words_def lower_def lower_char_def sublist_code)
  moreover have "repeated_request (lower ''Can I have water?'')
      [''Is the doctor coming?'', ''Can I have water?'']"
    by (simp add: repeated_request_def last3_def lower_def lower_char_def)
  ultimately show ?thesis
    using distress_level_scoring [of "''Can I have water?''"
        "Some [''Is the doctor coming?'', ''Can I have water?'']"]
    by simp
qed

text \<open>
  Claim C4 as the specification states it fails for a history of one entry: the query
  repeats the only entry of the history, no high-distress keyword occurs, and the level
  is NONE, not MEDIUM.
\<close>

theorem distress_single_entry_history_counterexample:
  "[''Can I have water?''] \<noteq> [] \<and>
   \<not> any_in high_distress_words (lower ''Can I have water?'') \<and>
   repeated_request (lower ''Can I have water?'') [''Can I have water?''] \<and>
   distress_level (DistressDetectionTool_run ''Can I have water?''
      (Some [''Can I have water?''])) = ''NONE''"
proof -
  have high: "\<not> any_in high_distress_words (lower ''Can I have water?'')"
    by (simp add: any_in_def high_distress_words_def lower_def lower_char_def sublist_code)
  have medium: "\<not> any_in medium_distress_words (lower ''Can I have water?'')"
    by (simp add: any_in_def medium_distress_words_def lower_def lower_char_def sublist_code)
  have rep: "repeated_request (lower ''Can I have water?'') [''Can I have water?'']"
    by (simp add: repeated_request_def last3_def lower_def lower_char_def)
  have "distress_level (DistressDetectionTool_run ''Can I have water?''
      (Some [''Can I have water?''])) =
      fst (check_medium (lower ''Can I have water?'')
             (check_repeated (lower ''Can I have water?'') [''Can I have water?'']
                (check_high (lower ''Can I have water?'') (''NONE'', []))))"
    by (simp add: DistressDetectionTool_run_def Let_def)
  also have "\<dots> = ''NONE''"
    using high medium
    by (simp add: check_medium_level check_repeated_level check_high_level)
  finally show ?thesis
    using high rep by simp
qed

section \<open>Emergencies\<close>

text \<open>
  The classifier half of claim C1 holds for every text: an emergency keyword, as written
  or after lowering, gives intent EMERGENCY with confidence 0.99.
\<close>

lemma emergency_keyword_classified:
  assumes kw: "kw \<in> set emergency_keywords"
    and occ: "sublist kw query \<or> sublist kw (lower query)"
  shows "category (IntentClassificationTool_run query patient_context) = ''EMERGENCY''"
    and "confidence (IntentClassificationTool_run query patient_context) = 0.99"
proof -
  have "sublist kw (lower query)"
    using occ sublist_lower [of kw query] emergency_keywords_lower [OF kw] by auto
  with kw have "any_in emergency_keywords (lower query)"
    by (auto simp: any_in_iff)
  then show "category (IntentClassificationTool_run query patient_context) = ''EMERGENCY''"
    and "confidence (IntentClassificationTool_run query patient_context) = 0.99"
    by (simp_all add: IntentClassificationTool_run_def Let_def)
qed

text \<open>
  The policy half holds when the original query holds no medication word: an EMERGENCY
  intent then gives escalation EMERGENCY without approval.
\<close>

lemma emergency_without_medication_word:
  assumes ctx: "dict_get patient_context ''original_query'' (PyStr []) = PyStr query"
    and nomed: "\<not> any_in medication_words (lower query)"
  shows "\<exists>d. PolicyEvaluationTool_run ''EMERGENCY'' urgency patient_context distress = Inr d \<and>
             \<not> requires_human_approval d \<and> decision_escalation_level d = ''EMERGENCY''"
  using assms
  by (simp add: PolicyEvaluationTool_run_def original_query_lower_def policy_1_2_def
      policy_3_def policy_4_def policy_5_def initial_locals_def build_decision_def)

text \<open>
  Claim C1 at the query ``I need my heart medication, I can't breathe''. The classifier
  returns EMERGENCY, the emergency rule sets escalation EMERGENCY without approval, and
  the medication rule, which has no guard on the escalation level reached so far,
  overwrites both: the decision requires approval, at escalation level NURSE, with an
  estimated response time of 300 seconds.
\<close>

theorem emergency_with_medication_word_downgraded:
  "category (IntentClassificationTool_run ''I need my heart medication, I can't breathe''
      ''ICU patient'') = ''EMERGENCY'' \<and>
   (case PolicyEvaluationTool_run ''EMERGENCY'' ''CRITICAL''
           [''original_query'' \<mapsto> PyStr ''I need my heart medication, I can't breathe'']
           ''HIGH'' of
      Inl e \<Rightarrow> False
    | Inr d \<Rightarrow>
        requires_human_approval d \<and>
        decision_escalation_level d = ''NURSE'' \<and>
        decision_applicable_policies d =
          [''EMERGENCY_PROTOCOL'', ''MEDICATION_REQUEST_NURSE_REQUIRED''] \<and>
        decision_estimated_response_time d = 300)"
proof -
  have kw: "''can't breathe'' \<in> set emergency_keywords"
    by (simp add: emergency_keywords_def)
  have occ: "sublist ''can't breathe'' ''I need my heart medication, I can't breathe''"
    by (simp add: sublist_code)
  have cat: "category (IntentClassificationTool_run
      ''I need my heart medication, I can't breathe'' ''ICU patient'') = ''EMERGENCY''"
    using emergency_keyword_classified(1) [OF kw] occ by blast
  have med: "any_in medication_words (lower ''I need my heart medication, I can't breathe'')"
    by (simp add: any_in_def medication_words_def lower_def lower_char_def sublist_code)
  have q: "original_query_lower
      [''original_query'' \<mapsto> PyStr ''I need my heart medication, I can't breathe'']
      = Inr (lower ''I need my heart medication, I can't breathe'')"
    by (simp add: original_query_lower_def dict_get_def)
  show ?thesis
    using cat med
    by (simp add: PolicyEvaluationTool_run_def q policy_1_2_def policy_3_def policy_4_def
        policy_5_def initial_locals_def build_decision_def)
qed

section \<open>Determinism and the clock\<close>

lemma non_medical_response_clock:
  "non_medical_response now query_lower =
     (if \<not> sublist ''water'' query_lower \<and>
         \<not> any_in [''temperature'', ''hot'', ''cold'', ''warm''] query_lower \<and>
         \<not> any_in [''tv'', ''television''] query_lower \<and>
         \<not> any_in [''light'', ''lights''] query_lower \<and>
         \<not> any_in [''visitor'', ''family''] query_lower \<and>
         any_in [''time'', ''what time''] query_lower
      then ''The current time is '' @ strftime_I_M_p now @ ''.''
      else non_medical_response \<lparr>hour = 0, minute = 0\<rparr> query_lower)"
  unfolding non_medical_response_def by simp

lemma response_reads_clock:
  assumes "reads_clock intent policy_decision original_query"
  shows "ResponseGenerationTool_run now intent patient_context policy_decision original_query =
           ''The current time is '' @ strftime_I_M_p now @ ''.''"
proof -
  have "ResponseGenerationTool_run now intent patient_context policy_decision original_query =
          non_medical_response now (lower original_query)"
    using assms unfolding reads_clock_def ResponseGenerationTool_run_def Let_def by auto
  also have "\<dots> = ''The current time is '' @ strftime_I_M_p now @ ''.''"
    using assms unfolding reads_clock_def Let_def
    by (subst non_medical_response_clock) auto
  finally show ?thesis .
qed

lemma response_clock_free:
  assumes "\<not> reads_clock intent policy_decision original_query"
  shows "ResponseGenerationTool_run now intent patient_context policy_decision original_query =
         ResponseGenerationTool_run \<lparr>hour = 0, minute = 0\<rparr> intent patient_context
           policy_decision original_query"
proof (cases "dict_get policy_decision ''escalation_level'' (PyStr ''NONE'') \<noteq> PyStr ''EMERGENCY'' \<and>
    \<not> (truthy (dict_get policy_decision ''requires_human_approval'' (PyBool False)) \<and>
       dict_get policy_decision ''escalation_level'' (PyStr ''NONE'')
         \<in> set [PyStr ''NURSE'', PyStr ''DOCTOR'']) \<and>
    intent = ''NON_MEDICAL''")
  case True
  then have run: "\<And>t. ResponseGenerationTool_run t intent patient_context policy_decision
      original_query = non_medical_response t (lower original_query)"
    unfolding ResponseGenerationTool_run_def Let_def by auto
  have "non_medical_response now (lower original_query) =
        non_medical_response \<lparr>hour = 0, minute = 0\<rparr> (lower original_query)"
    using assms True unfolding reads_clock_def Let_def
    by (subst non_medical_response_clock) auto
  then show ?thesis
    by (simp add: run)
next
  case False
  then show ?thesis
    unfolding ResponseGenerationTool_run_def Let_def by auto
qed

text \<open>
  What each tool reads of its arguments. The response reads two keys of the decision
  and never the context summary; the time-of-day test reads the same two keys.
\<close>

lemma reads_clock_frame:
  assumes "policy_decision ''escalation_level'' = policy_decision' ''escalation_level''"
    and "policy_decision ''requires_human_approval'' = policy_decision' ''requires_human_approval''"
  shows "reads_clock intent policy_decision original_query =
         reads_clock intent policy_decision' original_query"
  using assms by (simp add: reads_clock_def dict_get_def)

lemma response_frame:
  assumes "policy_decision ''escalation_level'' = policy_decision' ''escalation_level''"
    and "policy_decision ''requires_human_approval'' = policy_decision' ''requires_human_approval''"
  shows "ResponseGenerationTool_run now intent summary policy_decision original_query =
         ResponseGenerationTool_run now intent summary' policy_decision' original_query"
  using assms by (simp add: ResponseGenerationTool_run_def dict_get_def)

lemma check_repeated_frame:
  assumes "last3 history = last3 history'" and "length history = length history'"
  shows "check_repeated q history st = check_repeated q history' st"
proof -
  have "(history \<noteq> []) = (history' \<noteq> [])"
    using assms(2) by (metis length_0_conv)
  then show ?thesis
    using assms by (simp add: check_repeated_def)
qed

lemma distress_frame:
  assumes "last3 history = last3 history'" and "length history = length history'"
  shows "DistressDetectionTool_run query (Some history) =
         DistressDetectionTool_run query (Some history')"
  using assms check_repeated_frame [OF assms]
  by (simp add: DistressDetectionTool_run_def)

lemma policy_frame:
  assumes "patient_context ''original_query'' = patient_context' ''original_query''"
  shows "PolicyEvaluationTool_run intent urgency patient_context distress =
         PolicyEvaluationTool_run intent urgency patient_context' distress"
proof -
  have "original_query_lower patient_context = original_query_lower patient_context'"
    using assms by (simp add: original_query_lower_def dict_get_def)
  then show ?thesis
    by (simp add: PolicyEvaluationTool_run_def)
qed

text \<open>
  Claim C3, as the code has it. Each result is fixed by the inputs the claim names, and
  by nothing else that is passed in.
  \<^item> The intent classification is fixed by the text: the context summary passed along
    is not read.
  \<^item> The distress result is fixed by the text and the history, of which only the length
    and the last three entries are read; an absent history is an empty one.
  \<^item> The policy decision is fixed by intent, urgency, distress level and the context's
    original query: no other key of the context is read.
  \<^item> The response is fixed by the decision's escalation level and approval flag, the
    intent and the original text, at any two clock readings, unless the call takes the
    time-of-day branch; there the reply is the formatted clock reading.
\<close>

theorem tools_determined_by_inputs:
  "IntentClassificationTool_run query summary = IntentClassificationTool_run query summary' \<and>
   (last3 history = last3 history' \<and> length history = length history' \<longrightarrow>
      DistressDetectionTool_run query (Some history) =
      DistressDetectionTool_run query (Some history')) \<and>
   DistressDetectionTool_run query None = DistressDetectionTool_run query (Some []) \<and>
   (patient_context ''original_query'' = patient_context' ''original_query'' \<longrightarrow>
      PolicyEvaluationTool_run intent urgency patient_context distress =
      PolicyEvaluationTool_run intent urgency patient_context' distress) \<and>
   (policy_decision ''escalation_level'' = policy_decision' ''escalation_level'' \<and>
    policy_decision ''requires_human_approval'' = policy_decision' ''requires_human_approval'' \<and>
    \<not> reads_clock intent policy_decision original_query \<longrightarrow>
      ResponseGenerationTool_run clock intent summary policy_decision original_query =
      ResponseGenerationTool_run clock' intent summary' policy_decision' original_query) \<and>
   (reads_clock intent policy_decision original_query \<longrightarrow>
      ResponseGenerationTool_run clock intent summary policy_decision original_query =
        ''The current time is '' @ strftime_I_M_p clock @ ''.'')"
proof -
  have intent_part:
    "IntentClassificationTool_run query summary = IntentClassificationTool_run query summary'"
    by (simp add: IntentClassificationTool_run_def)
  have absent: "DistressDetectionTool_run query None = DistressDetectionTool_run query (Some [])"
    by (simp add: DistressDetectionTool_run_def)
  have response_part:
    "ResponseGenerationTool_run clock intent summary policy_decision original_query =
     ResponseGenerationTool_run clock' intent summary' policy_decision' original_query"
    if keys: "policy_decision ''escalation_level'' = policy_decision' ''escalation_level''"
      "policy_decision ''requires_human_approval'' = policy_decision' ''requires_human_approval''"
      and free: "\<not> reads_clock intent policy_decision original_query"
  proof -
    have free': "\<not> reads_clock intent policy_decision' original_query"
      using free reads_clock_frame [OF keys] by simp
    have "ResponseGenerationTool_run clock intent summary policy_decision original_query =
          ResponseGenerationTool_run \<lparr>hour = 0, minute = 0\<rparr> intent summary policy_decision
            original_query"
      by (rule response_clock_free [OF free])
    also have "\<dots> = ResponseGenerationTool_run \<lparr>hour = 0, minute = 0\<rparr> intent summary'
            policy_decision' original_query"
      by (rule response_frame [OF keys])
    also have "\<dots> = ResponseGenerationTool_run clock' intent summary' policy_decision'
            original_query"
      by (rule response_clock_free [OF free', symmetric])
    finally show ?thesis .
  qed
  show ?thesis
    using intent_part absent distress_frame [of history history' query]
      policy_frame [of patient_context patient_context' intent urgency distress]
      response_part
      response_reads_clock [of intent policy_decision original_query clock summary]
    by blast
qed

theorem tools_determined_by_inputs_witness:
  "IntentClassificationTool_run ''I have chest pain'' ''ICU patient'' =
   IntentClassificationTool_run ''I have chest pain'' ''Sample Patient, age 65'' \<and>
   DistressDetectionTool_run ''Can I have water?''
      (Some [''Hello'', ''Is the doctor coming?'', ''Can I have water?'', ''Thank you'']) =
   DistressDetectionTool_run ''Can I have water?''
      (Some [''Good morning'', ''Is the doctor coming?'', ''Can I have water?'', ''Thank you'']) \<and>
   PolicyEvaluationTool_run ''MEDICAL'' ''HIGH''
      [''original_query'' \<mapsto> PyStr ''My leg hurts'', ''name'' \<mapsto> PyStr ''A''] ''LOW'' =
   PolicyEvaluationTool_run ''MEDICAL'' ''HIGH''
      [''original_query'' \<mapsto> PyStr ''My leg hurts'', ''bed_number'' \<mapsto> PyInt 7] ''LOW'' \<and>
   ResponseGenerationTool_run \<lparr>hour = 9, minute = 5\<rparr> ''NON_MEDICAL'' ''summary''
      [''escalation_level'' \<mapsto> PyStr ''NONE'', ''requires_human_approval'' \<mapsto> PyBool False]
      ''Can I have some water?'' =
   ResponseGenerationTool_run \<lparr>hour = 21, minute = 40\<rparr> ''NON_MEDICAL'' ''other summary''
      [''escalation_level'' \<mapsto> PyStr ''NONE'', ''requires_human_approval'' \<mapsto> PyBool False,
       ''reasoning'' \<mapsto> PyStr ''Standard processing'']
      ''Can I have some water?'' \<and>
   ResponseGenerationTool_run \<lparr>hour = 9, minute = 5\<rparr> ''NON_MEDICAL'' ''summary''
      [''escalation_level'' \<mapsto> PyStr ''NONE'', ''requires_human_approval'' \<mapsto> PyBool False]
      ''What time is it?'' = ''The current time is 09:05 AM.''"
proof -
  define pd :: "string \<rightharpoonup> py_value" where
    "pd = [''escalation_level'' \<mapsto> PyStr ''NONE'', ''requires_human_approval'' \<mapsto> PyBool False]"
  define pd' :: "string \<rightharpoonup> py_value" where
    "pd' = [''escalation_level'' \<mapsto> PyStr ''NONE'', ''requires_human_approval'' \<mapsto> PyBool False,
            ''reasoning'' \<mapsto> PyStr ''Standard processing'']"
  define pc :: "string \<rightharpoonup> py_value" where
    "pc = [''original_query'' \<mapsto> PyStr ''My leg hurts'', ''name'' \<mapsto> PyStr ''A'']"
  define pc' :: "string \<rightharpoonup> py_value" where
    "pc' = [''original_query'' \<mapsto> PyStr ''My leg hurts'', ''bed_number'' \<mapsto> PyInt 7]"
  define h where
    "h = [''Hello'', ''Is the doctor coming?'', ''Can I have water?'', ''Thank you'']"
  define h' where
    "h' = [''Good morning'', ''Is the doctor coming?'', ''Can I have water?'', ''Thank you'']"
  have hist: "last3 h = last3 h' \<and> length h = length h'"
    by (simp add: h_def h'_def last3_def)
  have ctx: "pc ''original_query'' = pc' ''original_query''"
    by (simp add: pc_def pc'_def)
  have keys: "pd ''escalation_level'' = pd' ''escalation_level'' \<and>
              pd ''requires_human_approval'' = pd' ''requires_human_approval''"
    by (simp add: pd_def pd'_def)
  have water: "\<not> reads_clock ''NON_MEDICAL'' pd ''Can I have some water?''"
    by (simp add: pd_def reads_clock_def dict_get_def lower_def lower_char_def sublist_code)
  have time: "reads_clock ''NON_MEDICAL'' pd ''What time is it?''"
    by (simp add: pd_def reads_clock_def dict_get_def any_in_def lower_def lower_char_def
        sublist_code)
  have fmt: "strftime_I_M_p \<lparr>hour = 9, minute = 5\<rparr> = ''09:05 AM''"
    by (simp add: strftime_I_M_p_def two_digits_def digit_char_def)
  have a: "IntentClassificationTool_run ''I have chest pain'' ''ICU patient'' =
      IntentClassificationTool_run ''I have chest pain'' ''Sample Patient, age 65'' \<and>
    DistressDetectionTool_run ''Can I have water?'' (Some h) =
      DistressDetectionTool_run ''Can I have water?'' (Some h') \<and>
    PolicyEvaluationTool_run ''MEDICAL'' ''HIGH'' pc ''LOW'' =
      PolicyEvaluationTool_run ''MEDICAL'' ''HIGH'' pc' ''LOW'' \<and>
    ResponseGenerationTool_run \<lparr>hour = 9, minute = 5\<rparr> ''NON_MEDICAL'' ''summary'' pd
      ''Can I have some water?'' =
    ResponseGenerationTool_run \<lparr>hour = 21, minute = 40\<rparr> ''NON_MEDICAL'' ''other summary'' pd'
      ''Can I have some water?''"
    using hist ctx keys water
      tools_determined_by_inputs
        [where query = "''I have chest pain''" and summary = "''ICU patient''"
           and summary' = "''Sample Patient, age 65''"
           and history = h and history' = h'
           and patient_context = pc and patient_context' = pc'
           and intent = "''MEDICAL''" and urgency = "''HIGH''" and distress = "''LOW''"
           and policy_decision = pd and policy_decision' = pd'
           and original_query = "''Can I have some water?''"
           and clock = "\<lparr>hour = 9, minute = 5\<rparr>"
           and clock' = "\<lparr>hour = 21, minute = 40\<rparr>"]
      tools_determined_by_inputs
        [where query = "''Can I have water?''" and summary = "''summary''"
           and summary' = "''other summary''"
           and history = h and history' = h'
           and patient_context = pc and patient_context' = pc'
           and intent = "''NON_MEDICAL''" and urgency = "''HIGH''" and distress = "''LOW''"
           and policy_decision = pd and policy_decision' = pd'
           and original_query = "''Can I have some water?''"
           and clock = "\<lparr>hour = 9, minute = 5\<rparr>"
           and clock' = "\<lparr>hour = 21, minute = 40\<rparr>"]
    by blast
  have b: "ResponseGenerationTool_run \<lparr>hour = 9, minute = 5\<rparr> ''NON_MEDICAL'' ''summary'' pd
      ''What time is it?'' = ''The current time is '' @ strftime_I_M_p \<lparr>hour = 9, minute = 5\<rparr> @ ''.''"
    using time
      tools_determined_by_inputs
        [where query = "''Can I have water?''" and summary = "''summary''"
           and summary' = "''other summary''"
           and history = h and history' = h'
           and patient_context = pc and patient_context' = pc'
           and intent = "''NON_MEDICAL''" and urgency = "''HIGH''" and distress = "''LOW''"
           and policy_decision = pd and policy_decision' = pd'
           and original_query = "''What time is it?''"
           and clock = "\<lparr>hour = 9, minute = 5\<rparr>"
           and clock' = "\<lparr>hour = 21, minute = 40\<rparr>"]
    by blast
  show ?thesis
    using a b unfolding fmt pd_def pd'_def pc_def pc'_def h_def h'_def by simp
qed

text \<open>
  Claim C3 as the specification states it fails for response composition: the same
  decision, intent and original text give two different replies one minute apart.
\<close>

theorem compose_reads_clock_counterexample:
  "ResponseGenerationTool_run \<lparr>hour = 9, minute = 5\<rparr> ''NON_MEDICAL'' ''summary''
      [''escalation_level'' \<mapsto> PyStr ''NONE'', ''requires_human_approval'' \<mapsto> PyBool False]
      ''What time is it?'' \<noteq>
   ResponseGenerationTool_run \<lparr>hour = 9, minute = 6\<rparr> ''NON_MEDICAL'' ''summary''
      [''escalation_level'' \<mapsto> PyStr ''NONE'', ''requires_human_approval'' \<mapsto> PyBool False]
      ''What time is it?''"
proof -
  have time: "reads_clock ''NON_MEDICAL''
      [''escalation_level'' \<mapsto> PyStr ''NONE'', ''requires_human_approval'' \<mapsto> PyBool False]
      ''What time is it?''"
    by (simp add: reads_clock_def dict_get_def any_in_def lower_def lower_char_def sublist_code)
  have "strftime_I_M_p \<lparr>hour = 9, minute = 5\<rparr> \<noteq> strftime_I_M_p \<lparr>hour = 9, minute = 6\<rparr>"
    by (simp add: strftime_I_M_p_def two_digits_def digit_char_def)
  then show ?thesis
    by (simp add: response_reads_clock [OF time])
qed

end
